theory Spec2Isabelle
  imports Main
begin

section \<open>Python string operations used by the scraper\<close>

text \<open>
  Strings are lists of characters. \<open>endswith\<close> and \<open>removesuffix\<close> are the
  Python \<open>str\<close> methods of the same names; \<open>removesuffix\<close> removes the suffix
  once, when the suffix is non-empty and the string ends with it.
\<close>

definition endswith :: "string \<Rightarrow> string \<Rightarrow> bool" where
  "endswith s suf =
     (length suf \<le> length s \<and> drop (length s - length suf) s = suf)"

definition removesuffix :: "string \<Rightarrow> string \<Rightarrow> string" where
  "removesuffix s suf =
     (if suf \<noteq> [] \<and> endswith s suf then take (length s - length suf) s else s)"

text \<open>
  The first statement of the loop body of \<open>scraper_run\<close> (utils.py, lines 218-223):
  a link that ends with a slash loses that slash. On Python 3.9 and later this is
  \<open>link.removesuffix('/')\<close>, before that \<open>link[:-1]\<close>; both remove one character
  here, since the guard has established that the link ends with the slash.
\<close>

definition normalize_link :: "string \<Rightarrow> string" where
  "normalize_link link =
     (if endswith link ''/'' then removesuffix link ''/'' else link)"

text \<open>
  \<open>str.strip()\<close> removes leading and trailing whitespace. The model covers the ASCII
  whitespace characters of \<open>str.isspace\<close>: tab, line feed, vertical tab, form feed,
  carriage return, the separators 0x1C-0x1F and the space.
\<close>

definition is_space :: "char \<Rightarrow> bool" where
  "is_space c = (let n = (of_char c :: nat) in (9 \<le> n \<and> n \<le> 13) \<or> (28 \<le> n \<and> n \<le> 32))"

definition strip :: "string \<Rightarrow> string" where
  "strip s = rev (dropWhile is_space (rev (dropWhile is_space s)))"

definition startswith :: "string \<Rightarrow> string \<Rightarrow> bool" where
  "startswith s pre = (take (length pre) s = pre)"

text \<open>The maximal runs of non-whitespace characters of a string (the regular expression \<open>\S+\<close>).\<close>

fun split_ws_aux :: "string \<Rightarrow> string \<Rightarrow> string list" where
  "split_ws_aux acc [] = (if acc = [] then [] else [rev acc])"
| "split_ws_aux acc (c # cs) =
     (if is_space c
      then (if acc = [] then split_ws_aux [] cs else rev acc # split_ws_aux [] cs)
      else split_ws_aux (c # acc) cs)"

definition split_ws :: "string \<Rightarrow> string list" where
  "split_ws s = split_ws_aux [] s"

section \<open>Parsed documents\<close>

text \<open>
  The document handle that \<open>BeautifulSoup(html, 'html.parser')\<close> returns is a tree of
  tags and text nodes. A tag has a name, a dictionary of attributes (an association
  list, read with \<open>map_of\<close>) and its children in document order; the document itself
  is the list of its top-level nodes. \<open>None\<close> for the document is \<open>None\<close> of the
  option type.
\<close>

datatype node = Text string | Elem string "(string \<times> string) list" "node list"

type_synonym soup = "node list"

fun tag_name :: "node \<Rightarrow> string" where
  "tag_name (Text s) = []"
| "tag_name (Elem n as cs) = n"

fun attr :: "node \<Rightarrow> string \<Rightarrow> string option" where
  "attr (Text s) k = None"
| "attr (Elem n as cs) k = map_of as k"

text \<open>All text nodes below a node, in document order.\<close>

fun strings_of :: "node \<Rightarrow> string list" where
  "strings_of (Text s) = [s]"
| "strings_of (Elem n as cs) = concat (map strings_of cs)"

text \<open>
  \<open>tag.get_text(strip=True)\<close>: every text node is stripped, the ones that become
  empty are dropped and the rest are joined with the empty separator.
  \<open>tag.text\<close> is \<open>tag.get_text()\<close>: the text nodes joined as they are.
\<close>

definition get_text_strip :: "node \<Rightarrow> string" where
  "get_text_strip n = concat (filter (\<lambda>s. s \<noteq> []) (map strip (strings_of n)))"

definition get_text :: "node \<Rightarrow> string" where
  "get_text n = concat (strings_of n)"

text \<open>All tags of a subtree and of a document, in document order (pre-order).\<close>

fun elems_of :: "node \<Rightarrow> node list" where
  "elems_of (Text s) = []"
| "elems_of (Elem n as cs) = Elem n as cs # concat (map elems_of cs)"

definition soup_elems :: "soup \<Rightarrow> node list" where
  "soup_elems doc = concat (map elems_of doc)"

text \<open>
  \<open>class\<close> is a multi-valued attribute: its value is split at whitespace, and a search
  for a class value matches a tag when one of the tokens is that value.
\<close>

definition has_class :: "string \<Rightarrow> node \<Rightarrow> bool" where
  "has_class v n = (case attr n ''class'' of None \<Rightarrow> False | Some c \<Rightarrow> v \<in> set (split_ws c))"

text \<open>
  \<open>soup.find_all(name, {'class': c})\<close> and \<open>soup.find(name, {'class': c})\<close>; the
  class filter is optional (\<open>{}\<close> is \<open>None\<close>). \<open>find\<close> returns the first tag that
  \<open>find_all\<close> lists.
\<close>

definition selects :: "string \<Rightarrow> string option \<Rightarrow> node \<Rightarrow> bool" where
  "selects name cls n =
     (tag_name n = name \<and> (case cls of None \<Rightarrow> True | Some c \<Rightarrow> has_class c n))"

definition find_all :: "soup \<Rightarrow> string \<Rightarrow> string option \<Rightarrow> node list" where
  "find_all doc name cls = filter (selects name cls) (soup_elems doc)"

definition soup_find :: "soup \<Rightarrow> string \<Rightarrow> string option \<Rightarrow> node option" where
  "soup_find doc name cls = List.find (selects name cls) (soup_elems doc)"

section \<open>Text normalisation\<close>

text \<open>
  The values that reach \<open>_normalize_text\<close>: \<open>None\<close>, a string, or a tag (the value
  with a \<open>get_text\<close> method). The result is the stripped text, or \<open>None\<close> when that
  text is empty (\<open>text or None\<close>).
\<close>

datatype pyval = PNone | PStr string | PTag node

definition nonempty :: "string \<Rightarrow> string option" where
  "nonempty text = (if text = [] then None else Some text)"

fun normalize_text :: "pyval \<Rightarrow> string option" where
  "normalize_text PNone = None"
| "normalize_text (PTag n) = nonempty (get_text_strip n)"
| "normalize_text (PStr s) = nonempty (strip s)"

section \<open>Title extraction\<close>

text \<open>
  \<open>title_finder\<close> (utils.py, lines 24-45). A tag is always true in a condition, so
  \<open>if h1:\<close> asks whether the tag was found. \<open>og.get('content')\<close> is true when the
  attribute is present and not the empty string.
\<close>

definition is_og_title :: "node \<Rightarrow> bool" where
  "is_og_title n = (tag_name n = ''meta'' \<and> attr n ''property'' = Some ''og:title'')"

text \<open>
  \<open>og = soup.find('meta', property='og:title')\<close> and then \<open>og.get('content')\<close>:
  the \<open>content\<close> attribute of the first such \<open>meta\<close> tag.
\<close>

definition og_content :: "soup \<Rightarrow> string option" where
  "og_content doc =
     (case List.find is_og_title (soup_elems doc) of
        None \<Rightarrow> None
      | Some og \<Rightarrow> attr og ''content'')"

definition title_finder :: "soup option \<Rightarrow> string option" where
  "title_finder soup =
     (case soup of
        None \<Rightarrow> None
      | Some doc \<Rightarrow>
          (case soup_find doc ''h1'' None of
             Some h1 \<Rightarrow> normalize_text (PTag h1)
           | None \<Rightarrow>
               (case og_content doc of
                  Some content \<Rightarrow>
                    if content \<noteq> [] then Some (strip content)
                    else (case soup_find doc ''title'' None of
                            Some title_tag \<Rightarrow> normalize_text (PTag title_tag)
                          | None \<Rightarrow> None)
                | None \<Rightarrow>
                    (case soup_find doc ''title'' None of
                       Some title_tag \<Rightarrow> normalize_text (PTag title_tag)
                     | None \<Rightarrow> None))))"

section \<open>Body extraction\<close>

text \<open>
  \<open>body_finder\<close> (utils.py, lines 48-80). The loop over
  \<open>soup.find_all('div', {'class': 'ad-container'})\<close> decomposes every such div, which
  removes it with everything below it from the document; \<open>decompose_ads\<close> is the
  document after that loop. The function returns the tag it chose together with the
  document as it has left it, since the caller goes on using the same handle.
\<close>

definition is_ad :: "node \<Rightarrow> bool" where
  "is_ad n = selects ''div'' (Some ''ad-container'') n"

fun strip_ads :: "node \<Rightarrow> node" where
  "strip_ads (Text s) = Text s"
| "strip_ads (Elem n as cs) = Elem n as (filter (\<lambda>c. \<not> is_ad c) (map strip_ads cs))"

definition decompose_ads :: "soup \<Rightarrow> soup" where
  "decompose_ads doc = filter (\<lambda>c. \<not> is_ad c) (map strip_ads doc)"


definition selectors :: "(string \<times> string option) list" where
  "selectors =
     [(''div'', Some ''table-post''), (''article'', None),
      (''div'', Some ''article-body''), (''div'', Some ''post-content'')]"

fun find_by_selectors :: "soup \<Rightarrow> (string \<times> string option) list \<Rightarrow> node option" where
  "find_by_selectors doc [] = None"
| "find_by_selectors doc ((name, cls) # rest) =
     (case soup_find doc name cls of
        Some tag \<Rightarrow> Some tag
      | None \<Rightarrow> find_by_selectors doc rest)"

text \<open>
  \<open>max(divs, key=...)\<close> on a non-empty list: the first element whose key is the
  largest. \<open>max_by key b xs\<close> continues a scan whose best element so far is \<open>b\<close>.
\<close>

fun max_by :: "('a \<Rightarrow> nat) \<Rightarrow> 'a \<Rightarrow> 'a list \<Rightarrow> 'a" where
  "max_by key b [] = b"
| "max_by key b (x # xs) = (if key b < key x then max_by key x xs else max_by key b xs)"

definition text_len :: "node \<Rightarrow> nat" where
  "text_len d = length (get_text_strip d)"

definition largest_div :: "soup \<Rightarrow> node option" where
  "largest_div doc =
     (case find_all doc ''div'' None of
        [] \<Rightarrow> None
      | d # ds \<Rightarrow>
          (let best = max_by text_len d ds
           in if 100 < text_len best then Some best else None))"

definition body_finder :: "soup option \<Rightarrow> node option \<times> soup option" where
  "body_finder soup =
     (case soup of
        None \<Rightarrow> (None, None)
      | Some doc \<Rightarrow>
          (let doc' = decompose_ads doc
           in (case find_by_selectors doc' selectors of
                 Some tag \<Rightarrow> (Some tag, Some doc')
               | None \<Rightarrow> (largest_div doc', Some doc'))))"

section \<open>Publication date extraction\<close>

text \<open>
  A naive \<open>datetime.datetime\<close> value. \<open>strftime('%d.%m.%Y %H:%M:%S')\<close> writes day,
  month, hour, minute and second with two digits and the year with four; the model
  is meant for the values a \<open>datetime\<close> can hold (years from 1000 on print their four
  digits on every platform).
\<close>

record datetime =
  year :: nat
  month :: nat
  day :: nat
  hour :: nat
  minute :: nat
  second :: nat

definition digit :: "nat \<Rightarrow> char" where
  "digit d = ''0123456789'' ! (d mod 10)"

definition pad2 :: "nat \<Rightarrow> string" where
  "pad2 n = [digit (n div 10), digit n]"

definition pad4 :: "nat \<Rightarrow> string" where
  "pad4 n = [digit (n div 1000), digit (n div 100), digit (n div 10), digit n]"

definition strftime :: "datetime \<Rightarrow> string" where
  "strftime d =
     pad2 (day d) @ ''.'' @ pad2 (month d) @ ''.'' @ pad4 (year d) @ '' '' @
     pad2 (hour d) @ '':'' @ pad2 (minute d) @ '':'' @ pad2 (second d)"

text \<open>
  \<open>published_at_finder\<close> (utils.py, lines 83-118). Two things come from outside the
  repository and are parameters: whether \<open>import dateparser\<close> succeeds, and
  \<open>dateparser.parse(text, languages=['pl'])\<close>, which by its contract returns a
  \<open>datetime\<close> or \<open>None\<close> for a string it cannot read.

  First strategy: the first \<open>time\<close> tag, its \<open>datetime\<close> attribute or, when that is
  missing or empty, its stripped text.
\<close>

definition time_strategy :: "(string \<Rightarrow> datetime option) \<Rightarrow> soup \<Rightarrow> string option" where
  "time_strategy parse doc =
     (case soup_find doc ''time'' None of
        None \<Rightarrow> None
      | Some time_tag \<Rightarrow>
          (let raw = (case attr time_tag ''datetime'' of
                        None \<Rightarrow> get_text_strip time_tag
                      | Some d \<Rightarrow> if d = [] then get_text_strip time_tag else d)
           in if raw = [] then None else map_option strftime (parse raw)))"

text \<open>
  Second strategy, inside \<open>try ... except Exception\<close>: the first \<open>a\<close> tag whose
  \<open>href\<close> matches \<open>^/autorzy/\<close>, then \<open>find_next('p')\<close>, the first \<open>p\<close> tag after
  the link in document order (the link's own descendants included), and its \<open>.text\<close>.
  When there is no such \<open>p\<close>, \<open>find_next\<close> returns \<open>None\<close>, \<open>.text\<close> raises
  AttributeError and the handler swallows it: the strategy yields nothing.
\<close>

definition is_author_link :: "node \<Rightarrow> bool" where
  "is_author_link n =
     (tag_name n = ''a'' \<and>
      (case attr n ''href'' of None \<Rightarrow> False | Some h \<Rightarrow> startswith h ''/autorzy/''))"

definition elems_after :: "(node \<Rightarrow> bool) \<Rightarrow> node list \<Rightarrow> node list" where
  "elems_after P xs = (case dropWhile (\<lambda>n. \<not> P n) xs of [] \<Rightarrow> [] | a # rest \<Rightarrow> rest)"

definition author_strategy :: "(string \<Rightarrow> datetime option) \<Rightarrow> soup \<Rightarrow> string option" where
  "author_strategy parse doc =
     (case List.find is_author_link (soup_elems doc) of
        None \<Rightarrow> None
      | Some author_link \<Rightarrow>
          (case List.find (\<lambda>n. tag_name n = ''p'') (elems_after is_author_link (soup_elems doc)) of
             None \<Rightarrow> None
           | Some p \<Rightarrow>
               (let possible = get_text p
                in if possible = [] then None else map_option strftime (parse possible))))"

definition published_at_finder ::
  "bool \<Rightarrow> (string \<Rightarrow> datetime option) \<Rightarrow> soup option \<Rightarrow> string option" where
  "published_at_finder available parse soup =
     (case soup of
        None \<Rightarrow> None
      | Some doc \<Rightarrow>
          if \<not> available then None
          else (case time_strategy parse doc of
                  Some formatted \<Rightarrow> Some formatted
                | None \<Rightarrow> author_strategy parse doc))"

section \<open>The record store\<close>

text \<open>
  The \<open>Article\<close> model (models.py): four columns beside the unique \<open>url\<close>, which is
  the key of the store here. \<open>published_at\<close> is declared \<open>null=False\<close>, so a stored row
  always has a timestamp, and an insert without one is refused by the database with
  an IntegrityError.
\<close>

datatype exn =
    RequestException | ValueError | OSError | DatabaseError | IntegrityError
  | WebDriverException | OtherException

record Article =
  title :: string
  body :: string
  plain_body :: string
  published_at :: datetime

type_synonym store = "string \<rightharpoonup> Article"

record defaults =
  d_title :: string
  d_body :: string
  d_plain_body :: string
  d_published_at :: "datetime option"

text \<open>
  \<open>Article.objects.update_or_create(url=url, defaults=defaults)\<close>: a row with that
  url has the fields of \<open>defaults\<close> assigned and is saved (the result says
  \<open>created = False\<close>); otherwise a row is inserted from the url and \<open>defaults\<close>.
  \<open>defaults\<close> holds \<open>published_at\<close> only when \<open>save_article\<close> has put it there.
\<close>

definition update_or_create :: "store \<Rightarrow> string \<Rightarrow> defaults \<Rightarrow> exn + (store \<times> Article \<times> bool)" where
  "update_or_create db url d =
     (case db url of
        Some obj \<Rightarrow>
          (let obj' = obj\<lparr>title := d_title d, body := d_body d, plain_body := d_plain_body d,
                           published_at := (case d_published_at d of
                                              None \<Rightarrow> published_at obj
                                            | Some t \<Rightarrow> t)\<rparr>
           in Inr (db(url \<mapsto> obj'), obj', False))
      | None \<Rightarrow>
          (case d_published_at d of
             None \<Rightarrow> Inl IntegrityError
           | Some t \<Rightarrow>
               (let obj = \<lparr>title = d_title d, body = d_body d, plain_body = d_plain_body d,
                           published_at = t\<rparr>
                in Inr (db(url \<mapsto> obj), obj, True))))"

section \<open>Saving an article\<close>

text \<open>
  The dictionary that \<open>save_article\<close> receives. \<open>title\<close>, \<open>body\<close> and \<open>plain_body\<close>
  hold \<open>None\<close>, a string or a tag; \<open>published_at\<close> holds \<open>None\<close>, a string or a
  \<open>datetime\<close>; \<open>url\<close> holds \<open>None\<close> or a string. A missing key reads as \<open>None\<close>
  (\<open>article.get\<close>).
\<close>

datatype pubval = PubNone | PubStr string | PubDatetime datetime

record candidate =
  c_title :: pyval
  c_body :: pyval
  c_plain_body :: pyval
  c_published_at :: pubval
  c_url :: "string option"

definition not_found :: string where
  "not_found = ''Not Found''"

text \<open>Python's \<open>x or d\<close> for an optional string \<open>x\<close>: \<open>None\<close> and the empty string are false.\<close>

definition or_else :: "string option \<Rightarrow> string \<Rightarrow> string" where
  "or_else x d = (case x of None \<Rightarrow> d | Some s \<Rightarrow> if s = [] then d else s)"

text \<open>
  \<open>str(tag)\<close>, the markup of a tag: a simple serialisation (no entity escaping, no
  special form for void elements), which is all that the properties below look at.
\<close>

fun str_node :: "node \<Rightarrow> string" where
  "str_node (Text s) = s"
| "str_node (Elem n as cs) =
     ''<'' @ n @ concat (map (\<lambda>(k, v). '' '' @ k @ ''=\"'' @ v @ ''\"'') as) @ ''>'' @
     concat (map str_node cs) @ ''</'' @ n @ ''>''"

text \<open>
  Lines 155-164: the timestamp to store. \<open>strptime\<close> is
  \<open>datetime.datetime.strptime(_, '%d.%m.%Y %H:%M:%S')\<close>, a parameter; \<open>None\<close> stands
  for the ValueError it raises on a string that is not in the format, which the
  handler turns into \<open>published_at = None\<close>.
\<close>

definition parse_published :: "(string \<Rightarrow> datetime option) \<Rightarrow> pubval \<Rightarrow> datetime option" where
  "parse_published strptime v =
     (case v of
        PubNone \<Rightarrow> None
      | PubStr s \<Rightarrow> if s = [] then None else strptime s
      | PubDatetime t \<Rightarrow> Some t)"

text \<open>
  Lines 143-174: the fields handed to the store. \<open>uuid\<close> is the text of
  \<open>uuid.uuid4()\<close>. \<open>timezone.make_aware\<close> attaches the current time zone to the
  naive local time; the store keeps the local time.
\<close>

definition article_defaults :: "(string \<Rightarrow> datetime option) \<Rightarrow> candidate \<Rightarrow> defaults" where
  "article_defaults strptime article =
     (let title = or_else (normalize_text (c_title article)) not_found;
          (body_html, plain_body) =
            (case c_body article of
               PTag t \<Rightarrow>
                 (str_node t, or_else (normalize_text (PStr (get_text_strip t))) not_found)
             | body_val \<Rightarrow>
                 (let body_html = or_else (normalize_text body_val) not_found
                  in (body_html,
                      or_else (normalize_text (c_plain_body article))
                        (if body_html \<noteq> not_found then body_html else not_found))))
      in \<lparr>d_title = title, d_body = body_html, d_plain_body = plain_body,
          d_published_at = parse_published strptime (c_published_at article)\<rparr>)"

definition article_url :: "string \<Rightarrow> candidate \<Rightarrow> string" where
  "article_url uuid article = or_else (c_url article) (''not-found-'' @ uuid)"

definition save_article ::
  "(string \<Rightarrow> datetime option) \<Rightarrow> string \<Rightarrow> candidate \<Rightarrow> store \<Rightarrow> exn + (store \<times> Article \<times> bool)" where
  "save_article strptime uuid article db =
     update_or_create db (article_url uuid article) (article_defaults strptime article)"

text \<open>
  A tag, as opposed to a bare text node. The body that \<open>body_finder\<close> hands over is
  always a tag.
\<close>

fun is_tag :: "node \<Rightarrow> bool" where
  "is_tag (Text s) = False"
| "is_tag (Elem n as cs) = True"

definition body_is_tag :: "candidate \<Rightarrow> bool" where
  "body_is_tag a = (case c_body a of PTag t \<Rightarrow> is_tag t | _ \<Rightarrow> True)"

section \<open>The scraping loop\<close>

text \<open>
  What \<open>scraper_run\<close> reaches outside the repository is a parameter of the model.
  Each call either returns or raises; the calls made once per URL get the position
  \<open>idx\<close> of the URL in the list (from 1, as \<open>enumerate(..., start=1)\<close> counts) and the
  URL, so that the same URL may be answered differently at different positions.
  \<^item> \<open>webdriver_builder\<close>: \<open>None\<close> when the headless browser was started, the
    exception otherwise.
  \<^item> \<open>load_links\<close>: \<open>open(websites_path)\<close> and \<open>json.load\<close>, the list of URLs.
  \<^item> \<open>exists_error\<close>: the exception, if any, that the query
    \<open>Article.objects.filter(url=link).exists()\<close> raises; when it raises none, the
    answer is read from the store.
  \<^item> \<open>urlparse\<close>: scheme and network location of a URL; \<open>urllib.parse.urlparse\<close>
    raises ValueError on unmatched square brackets in the network location.
  \<^item> \<open>requests_get\<close>: the status code of the probe.
  \<^item> \<open>page_source\<close>: \<open>driver.get(link)\<close>, \<open>driver.page_source\<close> and the parse of
    the page into a document.
  \<^item> \<open>dateparser_available\<close>, \<open>dateparser_parse\<close>, \<open>strptime\<close>, \<open>uuid4\<close>: as in the
    sections above.
\<close>

record env =
  webdriver_builder :: "exn option"
  load_links :: "exn + string list"
  exists_error :: "nat \<Rightarrow> string \<Rightarrow> exn option"
  urlparse :: "string \<Rightarrow> exn + (string \<times> string)"
  requests_get :: "nat \<Rightarrow> string \<Rightarrow> exn + nat"
  page_source :: "nat \<Rightarrow> string \<Rightarrow> exn + soup"
  dateparser_available :: bool
  dateparser_parse :: "string \<Rightarrow> datetime option"
  strptime :: "string \<Rightarrow> datetime option"
  uuid4 :: string

text \<open>
  What a run does that can be observed: the calls that go out (the probe, the render,
  \<open>save_article\<close>, \<open>driver.quit\<close>) and the log lines, in order.
\<close>

datatype event =
    Probe string
  | Render string
  | Persist string
  | Quit
  | LogAlreadySaved string
  | LogDbCheckFailed string
  | LogInvalidUrl string
  | LogRequestError string exn
  | LogBadStatus nat string
  | LogScraping nat nat string nat
  | LogSaved string string
  | LogUpdated string string
  | LogFailed string exn

record state =
  articles :: store
  skipped_cnt :: nat
  trace :: "event list"

definition emit :: "event list \<Rightarrow> state \<Rightarrow> state" where
  "emit es s = s\<lparr>trace := trace s @ es\<rparr>"

text \<open>
  \<open>skipped_cnt =+ 1\<close> (lines 227, 235, 241, 245) is the assignment
  \<open>skipped_cnt = +1\<close>: the counter becomes 1.
\<close>

definition skip :: "event list \<Rightarrow> state \<Rightarrow> state" where
  "skip es s = emit es (s\<lparr>skipped_cnt := 1\<rparr>)"

definition bad_statuses :: "nat set" where
  "bad_statuses = {404, 500, 408, 403}"

text \<open>
  Lines 255-265: the dictionary built from the rendered document. \<open>title_finder\<close>
  runs on the document as parsed; \<open>body_finder\<close> then removes the ad containers from
  it, and \<open>published_at_finder\<close> sees what is left.
\<close>

definition build_article :: "env \<Rightarrow> soup \<Rightarrow> string \<Rightarrow> candidate" where
  "build_article e doc link =
     (let t = title_finder (Some doc);
          (b, soup') = body_finder (Some doc);
          p = published_at_finder (dateparser_available e) (dateparser_parse e) soup'
      in \<lparr>c_title = (case t of None \<Rightarrow> PNone | Some x \<Rightarrow> PStr x),
          c_body = (case b of None \<Rightarrow> PNone | Some tag \<Rightarrow> PTag tag),
          c_plain_body = (case b of None \<Rightarrow> PNone | Some tag \<Rightarrow> PStr (get_text_strip tag)),
          c_published_at = (case p of None \<Rightarrow> PubNone | Some x \<Rightarrow> PubStr x),
          c_url = Some link\<rparr>)"

text \<open>
  Lines 248-270, the last \<open>try\<close> of the loop body: every exception raised by the
  render, the extraction or \<open>save_article\<close> is logged and the loop continues. The
  result of a stage is the exception that leaves the loop body, if any, and the state.
\<close>

definition scrape :: "env \<Rightarrow> nat \<Rightarrow> nat \<Rightarrow> string \<Rightarrow> state \<Rightarrow> exn option \<times> state" where
  "scrape e n_links idx link s =
     (let s1 = emit [LogScraping idx n_links link (skipped_cnt s), Render link] s
      in case page_source e idx link of
           Inl err \<Rightarrow> (None, emit [LogFailed link err] s1)
         | Inr doc \<Rightarrow>
             (let article = build_article e doc link;
                  s2 = emit [Persist link] s1
              in case save_article (strptime e) (uuid4 e) article (articles s2) of
                   Inl err \<Rightarrow> (None, emit [LogFailed link err] s2)
                 | Inr (db', obj, created) \<Rightarrow>
                     (None, emit [if created then LogSaved (title obj) link
                                  else LogUpdated (title obj) link] (s2\<lparr>articles := db'\<rparr>))))"

text \<open>
  Lines 231-246: validation and probe. The handler of this \<open>try\<close> names
  \<open>requests.exceptions.RequestException\<close> only; any other exception raised inside it
  leaves the loop.
\<close>

definition probe :: "env \<Rightarrow> nat \<Rightarrow> nat \<Rightarrow> string \<Rightarrow> state \<Rightarrow> exn option \<times> state" where
  "probe e n_links idx link s =
     (case urlparse e link of
        Inl err \<Rightarrow>
          if err = RequestException then (None, skip [LogRequestError link err] s)
          else (Some err, s)
      | Inr (scheme, netloc) \<Rightarrow>
          if \<not> ((scheme = ''http'' \<or> scheme = ''https'') \<and> netloc \<noteq> [])
          then (None, skip [LogInvalidUrl link] s)
          else (case requests_get e idx link of
                  Inl err \<Rightarrow>
                    if err = RequestException
                    then (None, skip [Probe link, LogRequestError link err] s)
                    else (Some err, emit [Probe link] s)
                | Inr status \<Rightarrow>
                    if status \<in> bad_statuses
                    then (None, skip [Probe link, LogBadStatus status link] s)
                    else scrape e n_links idx link (emit [Probe link] s)))"

text \<open>
  Lines 218-230: the trailing slash is removed, then the store is asked for the URL.
  An exception of that query is logged at debug level and the URL goes on to
  validation.
\<close>

definition process_link :: "env \<Rightarrow> nat \<Rightarrow> nat \<Rightarrow> string \<Rightarrow> state \<Rightarrow> exn option \<times> state" where
  "process_link e n_links idx link0 s =
     (let link = normalize_link link0
      in case exists_error e idx link of
           Some err \<Rightarrow> probe e n_links idx link (emit [LogDbCheckFailed link] s)
         | None \<Rightarrow>
             if articles s link \<noteq> None then (None, skip [LogAlreadySaved link] s)
             else probe e n_links idx link s)"

fun run_loop :: "env \<Rightarrow> nat \<Rightarrow> nat \<Rightarrow> string list \<Rightarrow> state \<Rightarrow> exn option \<times> state" where
  "run_loop e n_links idx [] s = (None, s)"
| "run_loop e n_links idx (link # links) s =
     (case process_link e n_links idx link s of
        (Some err, s') \<Rightarrow> (Some err, s')
      | (None, s') \<Rightarrow> run_loop e n_links (Suc idx) links s')"

text \<open>
  \<open>scraper_run\<close> (lines 186-276). The result is the exception that leaves the
  function, if any, and the final state. The \<open>finally\<close> block quits the driver when
  there is one.
\<close>

definition scraper_run :: "env \<Rightarrow> store \<Rightarrow> exn option \<times> state" where
  "scraper_run e db0 =
     (let s0 = \<lparr>articles = db0, skipped_cnt = 0, trace = []\<rparr>
      in case webdriver_builder e of
           Some err \<Rightarrow> (Some err, s0)
         | None \<Rightarrow>
             (case load_links e of
                Inl err \<Rightarrow> (Some err, emit [Quit] s0)
              | Inr links \<Rightarrow>
                  (let (r, s) = run_loop e (length links) 1 links s0
                   in (r, emit [Quit] s))))"


section \<open>Sample documents and environments\<close>

text \<open>
  Concrete inputs at which the theorems below are instantiated. The sample
  environment starts the browser, answers every probe with status 200, renders the
  same page for every URL, and parses exactly one date string in each of the two
  date formats. \<open>sample_urlparse\<close> answers as \<open>urllib.parse.urlparse\<close> does on the
  URLs that occur below: scheme \<open>https\<close> and host \<open>example.com\<close> for the URLs of that
  site, ValueError for the unmatched bracket of \<open>http://[\<close>, and neither scheme nor
  host for anything else.
\<close>

definition sample_time :: datetime where
  "sample_time = \<lparr>year = 2024, month = 3, day = 1, hour = 10, minute = 0, second = 0\<rparr>"

definition sample_parse :: "string \<Rightarrow> datetime option" where
  "sample_parse s = (if s = ''2024-03-01T10:00:00'' then Some sample_time else None)"

definition sample_strptime :: "string \<Rightarrow> datetime option" where
  "sample_strptime s = (if s = ''01.03.2024 10:00:00'' then Some sample_time else None)"

definition sample_urlparse :: "string \<Rightarrow> exn + (string \<times> string)" where
  "sample_urlparse u =
     (if startswith u ''https://example.com'' then Inr (''https'', ''example.com'')
      else if u = ''http://['' then Inl ValueError
      else Inr ([], []))"

definition sample_env :: "string list \<Rightarrow> soup \<Rightarrow> env" where
  "sample_env links page =
     \<lparr>webdriver_builder = None, load_links = Inr links,
      exists_error = (\<lambda>idx link. None),
      urlparse = sample_urlparse,
      requests_get = (\<lambda>idx link. Inr 200),
      page_source = (\<lambda>idx link. Inr page),
      dateparser_available = True,
      dateparser_parse = sample_parse,
      strptime = sample_strptime,
      uuid4 = ''6f1c''\<rparr>"

text \<open>The sample environment for two URLs of the site, with every probe answered 404.\<close>

definition not_found_env :: env where
  "not_found_env =
     (sample_env [''https://example.com/a'', ''https://example.com/b''] [])
       \<lparr>requests_get := (\<lambda>idx link. Inr 404)\<rparr>"

definition title_only_page :: soup where
  "title_only_page = [Elem ''title'' [] [Text ''Foo'']]"

definition dated_page :: soup where
  "dated_page =
     [Elem ''html'' []
        [Elem ''head'' [] [Elem ''title'' [] [Text ''B'']],
         Elem ''body'' []
           [Elem ''h1'' [] [Text '' A ''],
            Elem ''time'' [(''datetime'', ''2024-03-01T10:00:00'')] [],
            Elem ''article'' []
              [Text ''Hello '',
               Elem ''div'' [(''class'', ''ad-container'')] [Text ''buy now''],
               Text ''world'']]]]"




text \<open>
  The sample environment for one URL of the site, written with its trailing slash,
  where the query that asks the store for the URL raises; and a row for that URL.
\<close>

definition db_error_env :: env where
  "db_error_env =
     (sample_env [''https://example.com/a/''] dated_page)
       \<lparr>exists_error := (\<lambda>idx link. Some DatabaseError)\<rparr>"

definition old_row :: Article where
  "old_row = \<lparr>title = ''T'', body = ''B'', plain_body = ''P'', published_at = sample_time\<rparr>"

definition new_row :: Article where
  "new_row =
     \<lparr>title = ''A'', body = ''<article>Hello world</article>'', plain_body = ''Helloworld'',
      published_at = sample_time\<rparr>"

text \<open>
  The sample environment for the same URL given twice, with and without the trailing
  slash; the same with every probe answered 404; for a list whose first URL has an
  unmatched bracket; for a list that cannot be loaded; and for three URLs of which
  the first fails in the probe and the second in the render.
\<close>

definition dup_env :: env where
  "dup_env = sample_env [''https://example.com/a/'', ''https://example.com/a''] dated_page"

definition dup_not_found_env :: env where
  "dup_not_found_env = dup_env\<lparr>requests_get := (\<lambda>idx link. Inr 404)\<rparr>"




definition empty_candidate :: candidate where
  "empty_candidate =
     \<lparr>c_title = PNone, c_body = PNone, c_plain_body = PNone,
      c_published_at = PubStr ''01.03.2024 10:00:00'', c_url = Some ''https://example.com/a''\<rparr>"

section \<open>URL canonicalisation\<close>

lemma endswith_slash_iff: "endswith s ''/'' \<longleftrightarrow> (s \<noteq> [] \<and> last s = CHR ''/'')"
proof (cases s rule: rev_cases)
  case Nil
  then show ?thesis by (simp add: endswith_def)
next
  case (snoc ys y)
  then show ?thesis by (simp add: endswith_def)
qed

lemma normalize_link_snoc: "normalize_link (u @ ''/'') = u"
  by (simp add: normalize_link_def removesuffix_def endswith_def)

lemma normalize_link_other: "\<not> endswith u ''/'' \<Longrightarrow> normalize_link u = u"
  by (simp add: normalize_link_def)

lemma endswith_slash_decompose: "endswith u ''/'' \<Longrightarrow> \<exists>v. u = v @ ''/''"
  by (cases u rule: rev_cases) (auto simp: endswith_slash_iff)

text \<open>
  Claim C4, as amended. A URL that ends with a slash loses exactly that one slash
  (putting the slash back gives the URL again), a URL that does not end with a slash
  is unchanged, and canonicalising twice gives the same result as canonicalising once
  exactly when the URL does not end with two slashes.
\<close>

theorem normalize_link_strips_one:
  "(endswith u ''/'' \<longrightarrow> normalize_link u @ ''/'' = u) \<and>
   (\<not> endswith u ''/'' \<longrightarrow> normalize_link u = u) \<and>
   (normalize_link (normalize_link u) = normalize_link u \<longleftrightarrow> \<not> endswith u ''//'')"
proof (intro conjI impI)
  assume "endswith u ''/''"
  then obtain v where "u = v @ ''/''" using endswith_slash_decompose by blast
  then show "normalize_link u @ ''/'' = u" by (simp add: normalize_link_snoc)
next
  assume "\<not> endswith u ''/''"
  then show "normalize_link u = u" by (rule normalize_link_other)
next
  show "normalize_link (normalize_link u) = normalize_link u \<longleftrightarrow> \<not> endswith u ''//''"
  proof (cases "endswith u ''/''")
    case False
    then have "\<not> endswith u ''//''"
      by (cases u rule: rev_cases) (auto simp: endswith_def)
    with False show ?thesis by (simp add: normalize_link_other)
  next
    case True
    then obtain v where u: "u = v @ ''/''" using endswith_slash_decompose by blast
    have a: "endswith u ''//'' \<longleftrightarrow> endswith v ''/''"
      unfolding u by (cases v rule: rev_cases) (auto simp: endswith_def)
    have b: "normalize_link v = v \<longleftrightarrow> \<not> endswith v ''/''"
    proof (cases "endswith v ''/''")
      case True
      then obtain w where "v = w @ ''/''" using endswith_slash_decompose by blast
      then show ?thesis by (simp add: normalize_link_snoc endswith_def)
    next
      case False
      then show ?thesis by (simp add: normalize_link_other)
    qed
    show ?thesis unfolding a unfolding u normalize_link_snoc by (rule b)
  qed
qed

theorem normalize_link_strips_one_witness:
  "normalize_link ''https://example.com/a/'' @ ''/'' = ''https://example.com/a/'' \<and>
   normalize_link ''https://example.com/a'' = ''https://example.com/a'' \<and>
   normalize_link (normalize_link ''https://example.com/a/'') = normalize_link ''https://example.com/a/''"
  using normalize_link_strips_one [of "''https://example.com/a/''"]
    normalize_link_strips_one [of "''https://example.com/a''"]
  by (simp add: endswith_def)

text \<open>
  The claim as the specification states it, idempotence for every URL, fails at a
  URL that ends with two slashes: the second pass removes the second slash.
\<close>

theorem normalize_link_not_idempotent:
  "normalize_link (normalize_link ''https://example.com/a//'') \<noteq>
     normalize_link ''https://example.com/a//''"
  by (simp add: normalize_link_def removesuffix_def endswith_def)

section \<open>Saving: sentinel values and the missing timestamp\<close>

lemma or_else_nonempty: "d \<noteq> [] \<Longrightarrow> or_else x d \<noteq> []"
  by (simp add: or_else_def split: option.splits)

lemma not_found_nonempty: "not_found \<noteq> []"
  by (simp add: not_found_def)

lemma str_node_tag_nonempty: "is_tag t \<Longrightarrow> str_node t \<noteq> []"
  by (cases t) simp_all

lemma d_title_defaults:
  "d_title (article_defaults strp a) = (case normalize_text (c_title a) of None \<Rightarrow> not_found | Some t \<Rightarrow> t)"
  by (cases "c_title a")
    (simp_all add: article_defaults_def Let_def or_else_def nonempty_def
      split: prod.splits)

lemma d_body_defaults:
  "d_body (article_defaults strp a) =
     (case c_body a of
        PTag t \<Rightarrow> str_node t
      | v \<Rightarrow> (case normalize_text v of None \<Rightarrow> not_found | Some t \<Rightarrow> t))"
  by (cases "c_body a")
    (simp_all add: article_defaults_def Let_def or_else_def nonempty_def)

lemma d_plain_body_defaults:
  "d_plain_body (article_defaults strp a) =
     (case c_body a of
        PTag t \<Rightarrow> (case nonempty (strip (get_text_strip t)) of None \<Rightarrow> not_found | Some p \<Rightarrow> p)
      | v \<Rightarrow> (case normalize_text (c_plain_body a) of
                 Some p \<Rightarrow> p
               | None \<Rightarrow> (case normalize_text v of None \<Rightarrow> not_found | Some t \<Rightarrow> t)))"
  by (cases "c_body a"; cases "c_plain_body a")
    (simp_all add: article_defaults_def Let_def or_else_def nonempty_def)

lemma d_published_at_defaults:
  "d_published_at (article_defaults strp a) = parse_published strp (c_published_at a)"
  by (simp add: article_defaults_def Let_def split: prod.splits)

lemma save_article_result:
  "save_article strp uuid a st = Inr (st', obj, created) \<Longrightarrow>
     st' = st(article_url uuid a \<mapsto> obj) \<and>
     title obj = d_title (article_defaults strp a) \<and>
     body obj = d_body (article_defaults strp a) \<and>
     plain_body obj = d_plain_body (article_defaults strp a) \<and>
     created = (st (article_url uuid a) = None)"
  by (auto simp: save_article_def update_or_create_def Let_def split: option.splits)

lemma article_url_nonempty: "article_url uuid a \<noteq> []"
  by (simp add: article_url_def or_else_nonempty)

lemma dropWhile_hd: "dropWhile P s \<noteq> [] \<Longrightarrow> \<not> P (hd (dropWhile P s))"
  by (metis hd_dropWhile)

lemma strip_fixed:
  assumes "s = [] \<or> (\<not> is_space (hd s) \<and> \<not> is_space (last s))"
  shows "strip s = s"
proof (cases "s = []")
  case True
  then show ?thesis by (simp add: strip_def)
next
  case False
  with assms have h: "\<not> is_space (hd s)" and l: "\<not> is_space (last s)" by auto
  from False h have a: "dropWhile is_space s = s" by (cases s) auto
  from False l have "\<not> is_space (hd (rev s))" by (simp add: hd_rev)
  moreover from False have "rev s \<noteq> []" by simp
  ultimately have b: "dropWhile is_space (rev s) = rev s"
    by (cases "rev s") auto
  show ?thesis by (simp add: strip_def a b)
qed

lemma dropWhile_last: "dropWhile P xs \<noteq> [] \<Longrightarrow> last (dropWhile P xs) = last xs"
proof -
  assume ne: "dropWhile P xs \<noteq> []"
  have "last xs = last (takeWhile P xs @ dropWhile P xs)" by simp
  also have "\<dots> = last (dropWhile P xs)" using ne by (rule last_appendR)
  finally show ?thesis by simp
qed

lemma strip_ends:
  assumes "strip s \<noteq> []"
  shows "\<not> is_space (hd (strip s)) \<and> \<not> is_space (last (strip s))"
proof -
  let ?a = "dropWhile is_space s"
  let ?b = "dropWhile is_space (rev ?a)"
  have sb: "strip s = rev ?b" by (simp add: strip_def)
  with assms have bne: "?b \<noteq> []" by simp
  have ane: "?a \<noteq> []"
  proof
    assume "?a = []"
    with bne show False by simp
  qed
  have hb: "\<not> is_space (hd ?b)" using bne by (rule dropWhile_hd)
  have ha: "\<not> is_space (hd ?a)" using ane by (rule dropWhile_hd)
  have "last ?b = last (rev ?a)" using bne by (rule dropWhile_last)
  also have "\<dots> = hd ?a" using ane by (simp add: last_rev)
  finally have lb: "last ?b = hd ?a" .
  have "hd (strip s) = last ?b" using sb bne by (simp add: hd_rev)
  moreover have "last (strip s) = hd ?b" using sb bne by (simp add: last_rev)
  ultimately show ?thesis using ha hb lb by simp
qed

lemma concat_ends:
  assumes "\<forall>x \<in> set xs. x \<noteq> [] \<and> \<not> P (hd x) \<and> \<not> P (last x)"
  shows "concat xs = [] \<or> (\<not> P (hd (concat xs)) \<and> \<not> P (last (concat xs)))"
  using assms
proof (induction xs)
  case Nil
  then show ?case by simp
next
  case (Cons x xs)
  then have x: "x \<noteq> []" "\<not> P (hd x)" "\<not> P (last x)" by auto
  from Cons have ih: "concat xs = [] \<or> (\<not> P (hd (concat xs)) \<and> \<not> P (last (concat xs)))" by auto
  show ?case using x ih by (auto simp: hd_append last_append)
qed

lemma strip_get_text_strip: "strip (get_text_strip t) = get_text_strip t"
proof -
  let ?xs = "filter (\<lambda>s. s \<noteq> []) (map strip (strings_of t))"
  have "\<forall>x \<in> set ?xs. x \<noteq> [] \<and> \<not> is_space (hd x) \<and> \<not> is_space (last x)"
    using strip_ends by auto
  then have "concat ?xs = [] \<or> (\<not> is_space (hd (concat ?xs)) \<and> \<not> is_space (last (concat ?xs)))"
    by (rule concat_ends)
  then show ?thesis unfolding get_text_strip_def by (rule strip_fixed)
qed

lemma build_article_url: "c_url (build_article e doc link) = Some link"
  by (simp add: build_article_def Let_def split: prod.splits)

lemma article_url_build: "link \<noteq> [] \<Longrightarrow> article_url uuid (build_article e doc link) = link"
  by (simp add: article_url_def or_else_def build_article_url)

text \<open>
  Claim C1. A candidate whose \<open>published_at\<close> is absent, empty or not in the format
  reaches \<open>update_or_create\<close> without a timestamp. For a URL that has no row yet the
  insert violates the NOT NULL column and \<open>save_article\<close> raises IntegrityError; in
  the loop that exception is caught by the handler of the last \<open>try\<close>, the URL is
  logged as failed and nothing is stored. For a URL that has a row, the row is
  updated and keeps the timestamp it had.
\<close>

theorem save_article_without_timestamp:
  "(parse_published strp (c_published_at a) = None \<and> st (article_url uuid a) = None \<longrightarrow>
      save_article strp uuid a st = Inl IntegrityError) \<and>
   (parse_published strp (c_published_at a) = None \<and> st (article_url uuid a) = Some old \<longrightarrow>
      (\<exists>obj. save_article strp uuid a st = Inr (st(article_url uuid a \<mapsto> obj), obj, False) \<and>
         published_at obj = published_at old)) \<and>
   (link \<noteq> [] \<and> page_source e idx link = Inr doc \<and> articles s link = None \<and>
    parse_published (strptime e) (c_published_at (build_article e doc link)) = None \<longrightarrow>
      scrape e n idx link s =
        (None, emit [LogScraping idx n link (skipped_cnt s), Render link, Persist link,
                     LogFailed link IntegrityError] s))"
proof (intro conjI impI)
  assume "parse_published strp (c_published_at a) = None \<and> st (article_url uuid a) = None"
  then show "save_article strp uuid a st = Inl IntegrityError"
    by (simp add: save_article_def update_or_create_def d_published_at_defaults)
next
  assume "parse_published strp (c_published_at a) = None \<and> st (article_url uuid a) = Some old"
  then show "\<exists>obj. save_article strp uuid a st = Inr (st(article_url uuid a \<mapsto> obj), obj, False) \<and>
               published_at obj = published_at old"
    by (simp add: save_article_def update_or_create_def d_published_at_defaults Let_def)
next
  assume h: "link \<noteq> [] \<and> page_source e idx link = Inr doc \<and> articles s link = None \<and>
    parse_published (strptime e) (c_published_at (build_article e doc link)) = None"
  then have "save_article (strptime e) (uuid4 e) (build_article e doc link)
               (articles (emit [Persist link] (emit [LogScraping idx n link (skipped_cnt s), Render link] s)))
             = Inl IntegrityError"
    by (simp add: save_article_def update_or_create_def d_published_at_defaults emit_def
        article_url_build)
  with h show "scrape e n idx link s =
              (None, emit [LogScraping idx n link (skipped_cnt s), Render link, Persist link,
                           LogFailed link IntegrityError] s)"
    by (simp add: scrape_def Let_def emit_def)
qed

theorem save_article_without_timestamp_witness:
  "save_article sample_strptime ''6f1c''
      (empty_candidate\<lparr>c_title := PStr ''Foo'', c_published_at := PubNone\<rparr>) Map.empty
     = Inl IntegrityError \<and>
   (\<exists>obj. save_article sample_strptime ''6f1c''
             (empty_candidate\<lparr>c_published_at := PubStr ''yesterday''\<rparr>)
             [''https://example.com/a'' \<mapsto>
                \<lparr>title = ''T'', body = ''B'', plain_body = ''P'', published_at = sample_time\<rparr>]
           = Inr ([''https://example.com/a'' \<mapsto> obj], obj, False) \<and>
          published_at obj = sample_time) \<and>
   scrape (sample_env [''https://example.com/a''] title_only_page) 1 1 ''https://example.com/a''
       \<lparr>articles = Map.empty, skipped_cnt = 0, trace = []\<rparr>
     = (None, \<lparr>articles = Map.empty, skipped_cnt = 0,
               trace = [LogScraping 1 1 ''https://example.com/a'' 0, Render ''https://example.com/a'',
                        Persist ''https://example.com/a'',
                        LogFailed ''https://example.com/a'' IntegrityError]\<rparr>)"
proof -
  let ?u = "''https://example.com/a''"
  let ?e = "sample_env [?u] title_only_page"
  let ?s = "\<lparr>articles = Map.empty, skipped_cnt = 0, trace = []\<rparr>"
  let ?old = "\<lparr>title = ''T'', body = ''B'', plain_body = ''P'', published_at = sample_time\<rparr>"
  have p: "parse_published (strptime ?e) (c_published_at (build_article ?e title_only_page ?u)) = None"
    by (simp add: build_article_def title_only_page_def sample_env_def published_at_finder_def
        body_finder_def decompose_ads_def is_ad_def selects_def selectors_def
        soup_find_def soup_elems_def largest_div_def find_all_def time_strategy_def
        author_strategy_def is_author_link_def elems_after_def parse_published_def Let_def)
  show ?thesis
    using save_article_without_timestamp
      [of sample_strptime "empty_candidate\<lparr>c_title := PStr ''Foo'', c_published_at := PubNone\<rparr>"
          Map.empty "''6f1c''" ?old ?u ?e 1 title_only_page ?s 1]
      save_article_without_timestamp
      [of sample_strptime "empty_candidate\<lparr>c_published_at := PubStr ''yesterday''\<rparr>"
          "[?u \<mapsto> ?old]" "''6f1c''" ?old ?u ?e 1 title_only_page ?s 1]
      p
    by (simp add: parse_published_def sample_strptime_def empty_candidate_def article_url_def
        or_else_def sample_env_def emit_def)
qed

lemma normalize_text_nonempty: "normalize_text v \<noteq> Some []"
  by (cases v) (simp_all add: nonempty_def)

text \<open>
  Claim C8. Whenever \<open>save_article\<close> stores a row, the row is the one found under the
  article's URL afterwards. If title, body and plain body of the candidate are absent,
  the three stored fields are the sentinel \<open>Not Found\<close>. For a candidate whose body,
  if present as a tag, is a tag, none of the three stored fields and not the URL is
  the empty string. Each stored field is the sentinel or comes from the candidate:
  the title is its normalised title; the body is the markup of its body tag or its
  normalised body; the plain body is the stripped text of its body tag, its
  normalised plain body or its normalised body; the URL is the candidate's URL or,
  when that is absent, the placeholder \<open>not-found-\<close> followed by a UUID.
\<close>

theorem save_article_sentinel:
  assumes "save_article strp uuid a st = Inr (st', obj, created)"
  shows "st' (article_url uuid a) = Some obj \<and>
    (c_title a = PNone \<and> c_body a = PNone \<and> c_plain_body a = PNone \<longrightarrow>
       title obj = ''Not Found'' \<and> body obj = ''Not Found'' \<and> plain_body obj = ''Not Found'') \<and>
    (body_is_tag a \<longrightarrow> title obj \<noteq> [] \<and> body obj \<noteq> [] \<and> plain_body obj \<noteq> []) \<and>
    article_url uuid a \<noteq> [] \<and>
    (title obj = ''Not Found'' \<or> normalize_text (c_title a) = Some (title obj)) \<and>
    (body obj = ''Not Found'' \<or> (\<exists>t. c_body a = PTag t \<and> body obj = str_node t) \<or>
       normalize_text (c_body a) = Some (body obj)) \<and>
    (plain_body obj = ''Not Found'' \<or> (\<exists>t. c_body a = PTag t \<and> plain_body obj = get_text_strip t) \<or>
       normalize_text (c_plain_body a) = Some (plain_body obj) \<or>
       normalize_text (c_body a) = Some (plain_body obj)) \<and>
    (c_url a = Some (article_url uuid a) \<or> article_url uuid a = ''not-found-'' @ uuid)"
proof -
  let ?d = "article_defaults strp a"
  from assms have r: "st' = st(article_url uuid a \<mapsto> obj)" "title obj = d_title ?d"
    "body obj = d_body ?d" "plain_body obj = d_plain_body ?d"
    using save_article_result by blast+
  have 1: "st' (article_url uuid a) = Some obj" using r(1) by simp
  have 2: "c_title a = PNone \<and> c_body a = PNone \<and> c_plain_body a = PNone \<longrightarrow>
       title obj = ''Not Found'' \<and> body obj = ''Not Found'' \<and> plain_body obj = ''Not Found''"
    by (simp add: r d_title_defaults d_body_defaults d_plain_body_defaults not_found_def)
  have t: "title obj \<noteq> []"
    using normalize_text_nonempty [of "c_title a"]
    by (auto simp: r d_title_defaults not_found_def split: option.splits)
  have 3: "body_is_tag a \<longrightarrow> title obj \<noteq> [] \<and> body obj \<noteq> [] \<and> plain_body obj \<noteq> []"
  proof
    assume b: "body_is_tag a"
    have "body obj \<noteq> []"
      using b normalize_text_nonempty [of "c_body a"]
      by (cases "c_body a")
        (auto simp: r d_body_defaults not_found_def body_is_tag_def str_node_tag_nonempty
          split: option.splits)
    moreover have "plain_body obj \<noteq> []"
      using normalize_text_nonempty [of "c_body a"] normalize_text_nonempty [of "c_plain_body a"]
      by (cases "c_body a")
        (auto simp: r d_plain_body_defaults not_found_def nonempty_def split: option.splits)
    ultimately show "title obj \<noteq> [] \<and> body obj \<noteq> [] \<and> plain_body obj \<noteq> []"
      using t by simp
  qed
  have 4: "article_url uuid a \<noteq> []" by (rule article_url_nonempty)
  have 5: "title obj = ''Not Found'' \<or> normalize_text (c_title a) = Some (title obj)"
    by (simp add: r d_title_defaults not_found_def split: option.splits)
  have 6: "body obj = ''Not Found'' \<or> (\<exists>t. c_body a = PTag t \<and> body obj = str_node t) \<or>
       normalize_text (c_body a) = Some (body obj)"
    by (cases "c_body a") (simp_all add: r d_body_defaults not_found_def split: option.splits)
  have 7: "plain_body obj = ''Not Found'' \<or> (\<exists>t. c_body a = PTag t \<and> plain_body obj = get_text_strip t) \<or>
       normalize_text (c_plain_body a) = Some (plain_body obj) \<or>
       normalize_text (c_body a) = Some (plain_body obj)"
    by (cases "c_body a")
      (simp_all add: r d_plain_body_defaults not_found_def strip_get_text_strip nonempty_def
        split: option.splits)
  have 8: "c_url a = Some (article_url uuid a) \<or> article_url uuid a = ''not-found-'' @ uuid"
    by (simp add: article_url_def or_else_def split: option.splits)
  show ?thesis using 1 2 3 4 5 6 7 8 by blast
qed

theorem save_article_sentinel_witness:
  "save_article sample_strptime ''6f1c'' empty_candidate Map.empty =
     Inr ([''https://example.com/a'' \<mapsto>
             \<lparr>title = ''Not Found'', body = ''Not Found'', plain_body = ''Not Found'',
              published_at = sample_time\<rparr>],
          \<lparr>title = ''Not Found'', body = ''Not Found'', plain_body = ''Not Found'',
           published_at = sample_time\<rparr>, True) \<and>
   article_url ''6f1c'' empty_candidate = ''https://example.com/a'' \<and>
   body_is_tag empty_candidate"
proof -
  let ?obj = "\<lparr>title = ''Not Found'', body = ''Not Found'', plain_body = ''Not Found'',
              published_at = sample_time\<rparr>"
  have u: "article_url ''6f1c'' empty_candidate = ''https://example.com/a''"
    by (simp add: article_url_def or_else_def empty_candidate_def)
  have s: "save_article sample_strptime ''6f1c'' empty_candidate Map.empty =
             Inr ([''https://example.com/a'' \<mapsto> ?obj], ?obj, True)"
    by (simp add: save_article_def update_or_create_def article_url_def article_defaults_def or_else_def
        not_found_def parse_published_def empty_candidate_def sample_strptime_def Let_def)
  have b: "body_is_tag empty_candidate"
    by (simp add: body_is_tag_def empty_candidate_def)
  show ?thesis using save_article_sentinel [OF s] s u b by simp
qed

section \<open>Title extraction: the order of the strategies\<close>

text \<open>
  Claim C7, as amended. Without a document there is no title. With one, the first
  location that is present decides, and the later ones are not consulted: an \<open>h1\<close>
  gives its normalised text (absent when that text is empty); without an \<open>h1\<close>, an
  \<open>og:title\<close> meta tag with a non-empty \<open>content\<close> gives that content, stripped
  (possibly the empty string); without either, a \<open>title\<close> tag gives its normalised
  text; without any of the three the result is absent. A document with only
  \<open><title>Foo</title>\<close> yields \<open>Foo\<close>, and one with \<open><h1>A</h1>\<close> and
  \<open><title>B</title>\<close> yields \<open>A\<close>.
\<close>

theorem title_finder_order:
  "title_finder None = None \<and>
   (soup_find doc ''h1'' None = Some h1 \<longrightarrow>
      title_finder (Some doc) = normalize_text (PTag h1)) \<and>
   (soup_find doc ''h1'' None = None \<and> og_content doc = Some content \<and> content \<noteq> [] \<longrightarrow>
      title_finder (Some doc) = Some (strip content)) \<and>
   (soup_find doc ''h1'' None = None \<and> (og_content doc = None \<or> og_content doc = Some []) \<and>
    soup_find doc ''title'' None = Some title_tag \<longrightarrow>
      title_finder (Some doc) = normalize_text (PTag title_tag)) \<and>
   (soup_find doc ''h1'' None = None \<and> (og_content doc = None \<or> og_content doc = Some []) \<and>
    soup_find doc ''title'' None = None \<longrightarrow>
      title_finder (Some doc) = None) \<and>
   title_finder (Some [Elem ''title'' [] [Text ''Foo'']]) = Some ''Foo'' \<and>
   title_finder (Some [Elem ''h1'' [] [Text ''A''], Elem ''title'' [] [Text ''B'']]) = Some ''A''"
proof (intro conjI impI)
  show "title_finder None = None" by (simp add: title_finder_def)
next
  assume "soup_find doc ''h1'' None = Some h1"
  then show "title_finder (Some doc) = normalize_text (PTag h1)"
    by (simp add: title_finder_def)
next
  assume "soup_find doc ''h1'' None = None \<and> og_content doc = Some content \<and> content \<noteq> []"
  then show "title_finder (Some doc) = Some (strip content)"
    by (simp add: title_finder_def)
next
  assume "soup_find doc ''h1'' None = None \<and> (og_content doc = None \<or> og_content doc = Some []) \<and>
    soup_find doc ''title'' None = Some title_tag"
  then show "title_finder (Some doc) = normalize_text (PTag title_tag)"
    by (auto simp: title_finder_def)
next
  assume "soup_find doc ''h1'' None = None \<and> (og_content doc = None \<or> og_content doc = Some []) \<and>
    soup_find doc ''title'' None = None"
  then show "title_finder (Some doc) = None"
    by (auto simp: title_finder_def)
next
  show "title_finder (Some [Elem ''title'' [] [Text ''Foo'']]) = Some ''Foo''"
    by (simp add: title_finder_def soup_find_def soup_elems_def selects_def og_content_def
        is_og_title_def nonempty_def get_text_strip_def strip_def is_space_def)
next
  show "title_finder (Some [Elem ''h1'' [] [Text ''A''], Elem ''title'' [] [Text ''B'']]) = Some ''A''"
    by (simp add: title_finder_def soup_find_def soup_elems_def selects_def
        nonempty_def get_text_strip_def strip_def is_space_def)
qed

theorem title_finder_order_witness:
  "title_finder (Some dated_page) = Some ''A'' \<and>
   title_finder (Some [Elem ''meta'' [(''property'', ''og:title''), (''content'', '' C '')] [],
                       Elem ''title'' [] [Text ''B'']]) = Some ''C'' \<and>
   title_finder (Some [Elem ''meta'' [(''property'', ''og:title'')] [],
                       Elem ''title'' [] [Text ''B'']]) = Some ''B'' \<and>
   title_finder (Some [Elem ''p'' [] [Text ''B'']]) = None"
proof -
  let ?h1 = "Elem ''h1'' [] [Text '' A '']"
  let ?og = "[Elem ''meta'' [(''property'', ''og:title''), (''content'', '' C '')] [],
              Elem ''title'' [] [Text ''B'']]"
  let ?t = "[Elem ''meta'' [(''property'', ''og:title'')] [], Elem ''title'' [] [Text ''B'']]"
  let ?p = "[Elem ''p'' [] [Text ''B'']]"
  have a: "soup_find dated_page ''h1'' None = Some ?h1"
    by (simp add: dated_page_def soup_find_def soup_elems_def selects_def)
  have b: "soup_find ?og ''h1'' None = None \<and> og_content ?og = Some '' C ''"
    by (simp add: soup_find_def soup_elems_def selects_def og_content_def is_og_title_def)
  have c: "soup_find ?t ''h1'' None = None \<and> og_content ?t = None \<and>
           soup_find ?t ''title'' None = Some (Elem ''title'' [] [Text ''B''])"
    by (simp add: soup_find_def soup_elems_def selects_def og_content_def is_og_title_def)
  have d: "soup_find ?p ''h1'' None = None \<and> og_content ?p = None \<and> soup_find ?p ''title'' None = None"
    by (simp add: soup_find_def soup_elems_def selects_def og_content_def is_og_title_def)
  show ?thesis
    using title_finder_order [of dated_page ?h1] title_finder_order [of ?og _ "'' C ''"]
      title_finder_order [of ?t _ _ "Elem ''title'' [] [Text ''B'']"] title_finder_order [of ?p]
      a b c d
    by (simp add: nonempty_def get_text_strip_def strip_def is_space_def)
qed

text \<open>
  The claim as the specification states it, that the extractor goes on until a
  strategy yields a title, fails at a document whose \<open>h1\<close> is empty: the \<open>title\<close>
  tag would give \<open>B\<close>, but the empty \<open>h1\<close> decides and the result is absent.
\<close>

theorem title_finder_stops_at_empty_h1:
  "title_finder (Some [Elem ''h1'' [] [], Elem ''title'' [] [Text ''B'']]) = None \<and>
   title_finder (Some [Elem ''title'' [] [Text ''B'']]) = Some ''B''"
  by (simp add: title_finder_def soup_find_def soup_elems_def selects_def og_content_def
      is_og_title_def nonempty_def get_text_strip_def strip_def is_space_def)

section \<open>Publication date extraction: the fallbacks\<close>

lemma strftime_sample: "strftime sample_time = ''01.03.2024 10:00:00''"
  by (simp add: strftime_def sample_time_def pad2_def pad4_def digit_def)



section \<open>Body extraction: ads, selectors and the largest div\<close>















section \<open>The scraping loop: skipping, failing and aborting\<close>

lemma scrape_no_exception: "fst (scrape e n idx link s) = None"
  by (simp add: scrape_def Let_def split: sum.splits prod.splits)

lemma scrape_skipped_cnt: "skipped_cnt (snd (scrape e n idx link s)) = skipped_cnt s"
  by (simp add: scrape_def Let_def emit_def split: sum.splits prod.splits)

lemma probe_skipped_cnt: "skipped_cnt s \<le> 1 \<Longrightarrow> skipped_cnt (snd (probe e n idx link s)) \<le> 1"
  by (simp add: probe_def skip_def emit_def scrape_skipped_cnt split: sum.splits prod.splits)

lemma process_link_skipped_cnt:
  "skipped_cnt s \<le> 1 \<Longrightarrow> skipped_cnt (snd (process_link e n idx link s)) \<le> 1"
proof -
  assume a: "skipped_cnt s \<le> 1"
  then have b: "skipped_cnt (emit es s) \<le> 1" for es by (simp add: emit_def)
  show ?thesis
    using probe_skipped_cnt [OF a] probe_skipped_cnt [OF b]
    by (simp add: process_link_def Let_def skip_def emit_def split: option.splits)
qed

lemma run_loop_skipped_cnt:
  "skipped_cnt s \<le> 1 \<Longrightarrow> skipped_cnt (snd (run_loop e n idx links s)) \<le> 1"
proof (induction links arbitrary: idx s)
  case Nil
  then show ?case by simp
next
  case (Cons link links)
  obtain r s' where p: "process_link e n idx link s = (r, s')" by (cases "process_link e n idx link s")
  with Cons.prems process_link_skipped_cnt [of s e n idx link] have "skipped_cnt s' \<le> 1" by simp
  with p Cons.IH [of s' "Suc idx"] show ?case by (cases r) simp_all
qed

lemma scraper_run_skipped_cnt: "skipped_cnt (snd (scraper_run e st)) \<le> 1"
proof -
  have "skipped_cnt (snd (run_loop e n 1 links \<lparr>articles = st, skipped_cnt = 0, trace = []\<rparr>)) \<le> 1"
    for n links
    by (rule run_loop_skipped_cnt) simp
  then show ?thesis
    by (simp add: scraper_run_def Let_def emit_def split: option.splits sum.splits prod.splits)
      (metis snd_conv)
qed

text \<open>
  Claim C3. A URL that passes validation and whose probe answers with a status in
  \<open>{403, 404, 408, 500}\<close> is not rendered: the only events of its iteration are the
  probe and the log line of the bad status. The counter, however, is not incremented
  but set to 1, whatever it was, and so it is at most 1 at the end of every run.
\<close>

theorem bad_status_sets_counter:
  "(urlparse e link = Inr (scheme, netloc) \<and> (scheme = ''http'' \<or> scheme = ''https'') \<and>
    netloc \<noteq> [] \<and> requests_get e idx link = Inr status \<and> status \<in> bad_statuses \<longrightarrow>
      probe e n idx link s =
        (None, s\<lparr>skipped_cnt := 1, trace := trace s @ [Probe link, LogBadStatus status link]\<rparr>)) \<and>
   skipped_cnt (snd (scraper_run e st)) \<le> 1"
proof (intro conjI impI)
  assume "urlparse e link = Inr (scheme, netloc) \<and> (scheme = ''http'' \<or> scheme = ''https'') \<and>
    netloc \<noteq> [] \<and> requests_get e idx link = Inr status \<and> status \<in> bad_statuses"
  then show "probe e n idx link s =
        (None, s\<lparr>skipped_cnt := 1, trace := trace s @ [Probe link, LogBadStatus status link]\<rparr>)"
    by (auto simp: probe_def skip_def emit_def)
next
  show "skipped_cnt (snd (scraper_run e st)) \<le> 1" by (rule scraper_run_skipped_cnt)
qed

lemma sample_urlparse_site:
  "sample_urlparse ''https://example.com/a'' = Inr (''https'', ''example.com'')"
  "sample_urlparse ''https://example.com/b'' = Inr (''https'', ''example.com'')"
  by (simp_all add: sample_urlparse_def startswith_def)

lemma normalize_link_site:
  "normalize_link ''https://example.com/a'' = ''https://example.com/a''"
  "normalize_link ''https://example.com/b'' = ''https://example.com/b''"
  "normalize_link ''https://example.com/a/'' = ''https://example.com/a''"
  by (simp_all add: normalize_link_def removesuffix_def endswith_def)

lemma not_found_env_fields:
  "webdriver_builder not_found_env = None"
  "load_links not_found_env = Inr [''https://example.com/a'', ''https://example.com/b'']"
  "exists_error not_found_env idx link = None"
  "urlparse not_found_env = sample_urlparse"
  "requests_get not_found_env idx link = Inr 404"
  by (simp_all add: not_found_env_def sample_env_def)

text \<open>
  Two URLs that both answer 404: neither is rendered, both are skipped, and the
  counter is 1 after the run.
\<close>

theorem bad_status_sets_counter_witness:
  "scraper_run not_found_env Map.empty =
     (None, \<lparr>articles = Map.empty, skipped_cnt = 1,
              trace = [Probe ''https://example.com/a'', LogBadStatus 404 ''https://example.com/a'',
                       Probe ''https://example.com/b'', LogBadStatus 404 ''https://example.com/b'',
                       Quit]\<rparr>)"
proof -
  have p: "probe not_found_env n idx ''https://example.com/a'' s =
             (None, s\<lparr>skipped_cnt := 1,
                trace := trace s @ [Probe ''https://example.com/a'',
                                    LogBadStatus 404 ''https://example.com/a'']\<rparr>)" for n idx s
    using bad_status_sets_counter
      [of not_found_env "''https://example.com/a''" "''https''" "''example.com''" idx 404 n s]
    by (simp add: bad_statuses_def not_found_env_fields sample_urlparse_site)
  have q: "probe not_found_env n idx ''https://example.com/b'' s =
             (None, s\<lparr>skipped_cnt := 1,
                trace := trace s @ [Probe ''https://example.com/b'',
                                    LogBadStatus 404 ''https://example.com/b'']\<rparr>)" for n idx s
    using bad_status_sets_counter
      [of not_found_env "''https://example.com/b''" "''https''" "''example.com''" idx 404 n s]
    by (simp add: bad_statuses_def not_found_env_fields sample_urlparse_site)
  show ?thesis
    by (simp add: scraper_run_def process_link_def normalize_link_site not_found_env_fields
        p q Let_def emit_def)
qed

lemma build_article_dated_page:
  assumes "dateparser_available e" "dateparser_parse e = sample_parse"
  shows "build_article e dated_page link =
           \<lparr>c_title = PStr ''A'',
            c_body = PTag (Elem ''article'' [] [Text ''Hello '', Text ''world'']),
            c_plain_body = PStr ''Helloworld'',
            c_published_at = PubStr ''01.03.2024 10:00:00'', c_url = Some link\<rparr>"
proof -
  have ws: "split_ws ''ad-container'' = [''ad-container'']"
    by (simp add: split_ws_def is_space_def)
  have t: "title_finder (Some dated_page) = Some ''A''"
    by (simp add: title_finder_def dated_page_def soup_find_def soup_elems_def selects_def
        nonempty_def get_text_strip_def strip_def is_space_def)
  have d: "decompose_ads dated_page =
     [Elem ''html'' []
        [Elem ''head'' [] [Elem ''title'' [] [Text ''B'']],
         Elem ''body'' []
           [Elem ''h1'' [] [Text '' A ''],
            Elem ''time'' [(''datetime'', ''2024-03-01T10:00:00'')] [],
            Elem ''article'' [] [Text ''Hello '', Text ''world'']]]]"
    by (simp add: decompose_ads_def dated_page_def is_ad_def selects_def has_class_def ws)
  have b: "body_finder (Some dated_page) =
     (Some (Elem ''article'' [] [Text ''Hello '', Text ''world'']), Some (decompose_ads dated_page))"
    unfolding body_finder_def
    by (simp add: d Let_def selectors_def soup_find_def soup_elems_def selects_def has_class_def)
  have p: "published_at_finder True sample_parse (Some (decompose_ads dated_page)) =
             Some ''01.03.2024 10:00:00''"
    by (simp add: d published_at_finder_def time_strategy_def soup_find_def soup_elems_def
        selects_def sample_parse_def strftime_sample)
  have g: "get_text_strip (Elem ''article'' [] [Text ''Hello '', Text ''world'']) = ''Helloworld''"
    by (simp add: get_text_strip_def strip_def is_space_def)
  show ?thesis using assms by (simp add: build_article_def t b p g)
qed

lemma defaults_dated_page:
  assumes "dateparser_available e" "dateparser_parse e = sample_parse"
  shows "article_defaults sample_strptime (build_article e dated_page link) =
           \<lparr>d_title = ''A'', d_body = ''<article>Hello world</article>'',
            d_plain_body = ''Helloworld'', d_published_at = Some sample_time\<rparr>"
  unfolding build_article_dated_page [OF assms]
  by (simp add: article_defaults_def or_else_def nonempty_def parse_published_def
      sample_strptime_def get_text_strip_def strip_def is_space_def Let_def)
text \<open>
  Claim C10. When the query that asks the store for the URL raises, the URL is not
  skipped: the exception is logged and the iteration goes on with validation and
  probe, exactly as for a URL that is not in the store. If the URL then passes
  validation, the probe answers with a good status and the page renders, then
  \<open>save_article\<close> is called, and a row that the store already holds for the URL is
  updated in place with the fields extracted from the page.
\<close>

theorem exists_error_falls_through:
  "(exists_error e idx (normalize_link link0) = Some err \<longrightarrow>
      process_link e n idx link0 s =
        probe e n idx (normalize_link link0) (emit [LogDbCheckFailed (normalize_link link0)] s)) \<and>
   (exists_error e idx link = Some err \<and> normalize_link link0 = link \<and> link \<noteq> [] \<and>
    urlparse e link = Inr (scheme, netloc) \<and> (scheme = ''http'' \<or> scheme = ''https'') \<and>
    netloc \<noteq> [] \<and> requests_get e idx link = Inr status \<and> status \<notin> bad_statuses \<and>
    page_source e idx link = Inr doc \<and> articles s link = Some old \<longrightarrow>
      (\<exists>obj. process_link e n idx link0 s =
         (None, s\<lparr>articles := (articles s)(link \<mapsto> obj),
                   trace := trace s @
                     [LogDbCheckFailed link, Probe link, LogScraping idx n link (skipped_cnt s),
                      Render link, Persist link, LogUpdated (title obj) link]\<rparr>) \<and>
         title obj = d_title (article_defaults (strptime e) (build_article e doc link)) \<and>
         body obj = d_body (article_defaults (strptime e) (build_article e doc link)) \<and>
         plain_body obj = d_plain_body (article_defaults (strptime e) (build_article e doc link))))"
proof (intro conjI impI)
  assume "exists_error e idx (normalize_link link0) = Some err"
  then show "process_link e n idx link0 s =
        probe e n idx (normalize_link link0) (emit [LogDbCheckFailed (normalize_link link0)] s)"
    by (simp add: process_link_def Let_def)
next
  let ?d = "article_defaults (strptime e) (build_article e doc link)"
  let ?obj = "old\<lparr>title := d_title ?d, body := d_body ?d, plain_body := d_plain_body ?d,
                   published_at := (case d_published_at ?d of None \<Rightarrow> published_at old | Some t \<Rightarrow> t)\<rparr>"
  assume h: "exists_error e idx link = Some err \<and> normalize_link link0 = link \<and> link \<noteq> [] \<and>
    urlparse e link = Inr (scheme, netloc) \<and> (scheme = ''http'' \<or> scheme = ''https'') \<and>
    netloc \<noteq> [] \<and> requests_get e idx link = Inr status \<and> status \<notin> bad_statuses \<and>
    page_source e idx link = Inr doc \<and> articles s link = Some old"
  then have u: "article_url (uuid4 e) (build_article e doc link) = link"
    by (simp add: article_url_build)
  have sv: "save_article (strptime e) (uuid4 e) (build_article e doc link) st =
              Inr (st(link \<mapsto> ?obj), ?obj, False)" if "st link = Some old" for st
    using that by (simp add: save_article_def update_or_create_def u Let_def)
  have sc: "scrape e n idx link s' =
              (None, s'\<lparr>articles := (articles s')(link \<mapsto> ?obj),
                 trace := trace s' @ [LogScraping idx n link (skipped_cnt s'), Render link,
                                      Persist link, LogUpdated (title ?obj) link]\<rparr>)"
    if "articles s' link = Some old" for s'
    using that h by (simp add: scrape_def Let_def emit_def sv)
  have pr: "probe e n idx link s' = scrape e n idx link (emit [Probe link] s')" for s'
    using h by (auto simp: probe_def)
  have "process_link e n idx link0 s =
          (None, s\<lparr>articles := (articles s)(link \<mapsto> ?obj),
                   trace := trace s @
                     [LogDbCheckFailed link, Probe link, LogScraping idx n link (skipped_cnt s),
                      Render link, Persist link, LogUpdated (title ?obj) link]\<rparr>)"
    using h by (simp add: process_link_def Let_def pr sc emit_def)
  then show "\<exists>obj. process_link e n idx link0 s =
         (None, s\<lparr>articles := (articles s)(link \<mapsto> obj),
                   trace := trace s @
                     [LogDbCheckFailed link, Probe link, LogScraping idx n link (skipped_cnt s),
                      Render link, Persist link, LogUpdated (title obj) link]\<rparr>) \<and>
         title obj = d_title ?d \<and> body obj = d_body ?d \<and> plain_body obj = d_plain_body ?d"
    by (intro exI [of _ ?obj]) simp
qed

lemma db_error_env_fields:
  "webdriver_builder db_error_env = None"
  "load_links db_error_env = Inr [''https://example.com/a/'']"
  "exists_error db_error_env idx link = Some DatabaseError"
  "urlparse db_error_env = sample_urlparse"
  "requests_get db_error_env idx link = Inr 200"
  "page_source db_error_env idx link = Inr dated_page"
  "dateparser_available db_error_env"
  "dateparser_parse db_error_env = sample_parse"
  "strptime db_error_env = sample_strptime"
  by (simp_all add: db_error_env_def sample_env_def)

theorem exists_error_falls_through_witness:
  "process_link db_error_env 1 1 ''https://example.com/a/''
     \<lparr>articles = [''https://example.com/a'' \<mapsto> old_row], skipped_cnt = 0, trace = []\<rparr> =
     (None, \<lparr>articles = [''https://example.com/a'' \<mapsto> new_row], skipped_cnt = 0,
              trace = [LogDbCheckFailed ''https://example.com/a'', Probe ''https://example.com/a'',
                       LogScraping 1 1 ''https://example.com/a'' 0, Render ''https://example.com/a'',
                       Persist ''https://example.com/a'', LogUpdated ''A'' ''https://example.com/a'']\<rparr>)"
proof -
  let ?u = "''https://example.com/a''"
  let ?s = "\<lparr>articles = [?u \<mapsto> old_row], skipped_cnt = 0, trace = []\<rparr>"
  have d: "article_defaults sample_strptime (build_article db_error_env dated_page ?u) =
             \<lparr>d_title = ''A'', d_body = ''<article>Hello world</article>'',
              d_plain_body = ''Helloworld'', d_published_at = Some sample_time\<rparr>"
    by (simp add: db_error_env_fields defaults_dated_page)
  have h: "exists_error db_error_env 1 ?u = Some DatabaseError \<and>
    normalize_link ''https://example.com/a/'' = ?u \<and> ?u \<noteq> [] \<and>
    urlparse db_error_env ?u = Inr (''https'', ''example.com'') \<and>
    (''https'' = ''http'' \<or> ''https'' = ''https'') \<and> ''example.com'' \<noteq> [] \<and>
    requests_get db_error_env 1 ?u = Inr 200 \<and> 200 \<notin> bad_statuses \<and>
    page_source db_error_env 1 ?u = Inr dated_page \<and> articles ?s ?u = Some old_row"
    by (simp add: db_error_env_fields normalize_link_site sample_urlparse_site bad_statuses_def)
  from exists_error_falls_through
      [of db_error_env 1 "''https://example.com/a/''" DatabaseError 1 ?s ?u "''https''"
          "''example.com''" 200 dated_page old_row]
  have "\<exists>obj. process_link db_error_env 1 1 ''https://example.com/a/'' ?s =
         (None, ?s\<lparr>articles := (articles ?s)(?u \<mapsto> obj),
                   trace := trace ?s @
                     [LogDbCheckFailed ?u, Probe ?u, LogScraping 1 1 ?u (skipped_cnt ?s),
                      Render ?u, Persist ?u, LogUpdated (title obj) ?u]\<rparr>) \<and>
         title obj = d_title (article_defaults (strptime db_error_env) (build_article db_error_env dated_page ?u)) \<and>
         body obj = d_body (article_defaults (strptime db_error_env) (build_article db_error_env dated_page ?u)) \<and>
         plain_body obj = d_plain_body (article_defaults (strptime db_error_env) (build_article db_error_env dated_page ?u))"
    using h by blast
  then obtain obj where o: "process_link db_error_env 1 1 ''https://example.com/a/'' ?s =
         (None, ?s\<lparr>articles := (articles ?s)(?u \<mapsto> obj),
                   trace := trace ?s @
                     [LogDbCheckFailed ?u, Probe ?u, LogScraping 1 1 ?u (skipped_cnt ?s),
                      Render ?u, Persist ?u, LogUpdated (title obj) ?u]\<rparr>)"
    and f: "title obj = ''A''" "body obj = ''<article>Hello world</article>''"
      "plain_body obj = ''Helloworld''"
    by (auto simp: db_error_env_fields d)
  have e: "process_link db_error_env 1 1 ''https://example.com/a/'' ?s =
             (None, \<lparr>articles = [?u \<mapsto> new_row], skipped_cnt = 0,
                trace = [LogDbCheckFailed ?u, Probe ?u, LogScraping 1 1 ?u 0, Render ?u,
                         Persist ?u, LogUpdated ''A'' ?u]\<rparr>)"
    by (simp add: process_link_def probe_def scrape_def save_article_def update_or_create_def
        db_error_env_fields normalize_link_site sample_urlparse_site bad_statuses_def
        defaults_dated_page article_url_build emit_def Let_def old_row_def new_row_def)
  from o e show ?thesis by simp
qed

section \<open>Duplicates\<close>

lemma scrape_dom:
  assumes "link \<noteq> []"
  shows "dom (articles s) \<subseteq> dom (articles (snd (scrape e n idx link s))) \<and>
         dom (articles (snd (scrape e n idx link s))) \<subseteq> insert link (dom (articles s))"
proof (cases "page_source e idx link")
  case (Inl err)
  then show ?thesis by (auto simp: scrape_def Let_def emit_def)
next
  case (Inr doc)
  let ?s2 = "emit [Persist link] (emit [LogScraping idx n link (skipped_cnt s), Render link] s)"
  have a: "articles ?s2 = articles s" by (simp add: emit_def)
  show ?thesis
  proof (cases "save_article (strptime e) (uuid4 e) (build_article e doc link) (articles s)")
    case (Inl err)
    with Inr show ?thesis by (auto simp: scrape_def Let_def emit_def)
  next
    case (Inr res)
    obtain st' obj created where res: "res = (st', obj, created)" by (cases res)
    with Inr have "st' = (articles s)(article_url (uuid4 e) (build_article e doc link) \<mapsto> obj)"
      using save_article_result by blast
    with assms have "st' = (articles s)(link \<mapsto> obj)" by (simp add: article_url_build)
    with Inr res \<open>page_source e idx link = Inr doc\<close> show ?thesis
      by (auto simp: scrape_def Let_def emit_def)
  qed
qed

lemma emit_articles: "articles (emit es s) = articles s"
  by (simp add: emit_def)

lemma skip_articles: "articles (skip es s) = articles s"
  by (simp add: skip_def emit_def)

lemma probe_dom:
  assumes "link \<noteq> []"
  shows "dom (articles s) \<subseteq> dom (articles (snd (probe e n idx link s))) \<and>
         dom (articles (snd (probe e n idx link s))) \<subseteq> insert link (dom (articles s))"
  using scrape_dom [OF assms, of "emit [Probe link] s" e n idx]
  by (auto simp: probe_def emit_articles skip_articles split: sum.splits prod.splits)

lemma process_link_dom:
  assumes "normalize_link link0 \<noteq> []"
  shows "dom (articles s) \<subseteq> dom (articles (snd (process_link e n idx link0 s))) \<and>
         dom (articles (snd (process_link e n idx link0 s))) \<subseteq>
           insert (normalize_link link0) (dom (articles s))"
  using probe_dom [OF assms, of s e n idx]
    probe_dom [OF assms, of "emit [LogDbCheckFailed (normalize_link link0)] s" e n idx]
  by (auto simp: process_link_def Let_def emit_articles skip_articles split: option.splits)
lemma normalize_link_nonempty_site: "normalize_link ''https://example.com/a'' \<noteq> []"
  by (simp add: normalize_link_site)

lemma run_dup_dom:
  "dom (articles s) \<subseteq> {''https://example.com/a''} \<Longrightarrow>
   dom (articles s) \<subseteq>
     dom (articles (snd (run_loop e n idx [''https://example.com/a/'', ''https://example.com/a''] s))) \<and>
   dom (articles (snd (run_loop e n idx [''https://example.com/a/'', ''https://example.com/a''] s)))
     \<subseteq> {''https://example.com/a''}"
proof -
  let ?u = "''https://example.com/a''"
  assume a: "dom (articles s) \<subseteq> {?u}"
  obtain r1 s1 where p1: "process_link e n idx ''https://example.com/a/'' s = (r1, s1)"
    by (cases "process_link e n idx ''https://example.com/a/'' s")
  have d1: "dom (articles s) \<subseteq> dom (articles s1) \<and> dom (articles s1) \<subseteq> {?u}"
    using process_link_dom [of "''https://example.com/a/''" s e n idx] p1 a
    by (simp add: normalize_link_site) blast
  obtain r2 s2 where p2: "process_link e n (Suc idx) ?u s1 = (r2, s2)"
    by (cases "process_link e n (Suc idx) ?u s1")
  have d2: "dom (articles s1) \<subseteq> dom (articles s2) \<and> dom (articles s2) \<subseteq> {?u}"
    using process_link_dom [of ?u s1 e n "Suc idx"] p2 d1
    by (simp add: normalize_link_site) blast
  have rl: "snd (run_loop e n idx [''https://example.com/a/'', ?u] s) =
              (case r1 of Some err \<Rightarrow> s1 | None \<Rightarrow> s2)"
    using p1 p2 by (simp split: option.splits)
  show ?thesis
  proof (cases r1)
    case (Some err)
    with rl d1 show ?thesis by simp
  next
    case None
    from d1 d2 have "dom (articles s) \<subseteq> dom (articles s2)" by blast
    with None rl d2 show ?thesis by simp
  qed
qed

lemma scraper_run_loaded:
  assumes "webdriver_builder e = None" "load_links e = Inr links"
  shows "scraper_run e st =
           (fst (run_loop e (length links) 1 links \<lparr>articles = st, skipped_cnt = 0, trace = []\<rparr>),
            emit [Quit]
              (snd (run_loop e (length links) 1 links \<lparr>articles = st, skipped_cnt = 0, trace = []\<rparr>)))"
  using assms by (simp add: scraper_run_def Let_def split: prod.splits del: run_loop.simps)

text \<open>
  Claim C5, as amended. A URL whose normalised form has a row in the store, and for
  which the query that asks the store returns, is skipped: nothing is probed,
  rendered or saved, and the only event is the log line. For the list
  \<open>["https://example.com/a/", "https://example.com/a"]\<close> and an empty store, a run
  leaves no row under any other key than \<open>https://example.com/a\<close>; and it leaves
  exactly that one row when the first URL passes validation, its probe answers with
  a good status, its page renders and the page carries a date that parses.
\<close>

theorem already_saved_is_skipped:
  "(exists_error e idx (normalize_link link0) = None \<and> articles s (normalize_link link0) = Some old \<longrightarrow>
      process_link e n idx link0 s =
        (None, s\<lparr>skipped_cnt := 1, trace := trace s @ [LogAlreadySaved (normalize_link link0)]\<rparr>)) \<and>
   (webdriver_builder e = None \<and>
    load_links e = Inr [''https://example.com/a/'', ''https://example.com/a''] \<longrightarrow>
      dom (articles (snd (scraper_run e Map.empty))) \<subseteq> {''https://example.com/a''}) \<and>
   (webdriver_builder e = None \<and>
    load_links e = Inr [''https://example.com/a/'', ''https://example.com/a''] \<and>
    urlparse e ''https://example.com/a'' = Inr (scheme, netloc) \<and>
    (scheme = ''http'' \<or> scheme = ''https'') \<and> netloc \<noteq> [] \<and>
    requests_get e 1 ''https://example.com/a'' = Inr status \<and> status \<notin> bad_statuses \<and>
    page_source e 1 ''https://example.com/a'' = Inr doc \<and>
    parse_published (strptime e) (c_published_at (build_article e doc ''https://example.com/a'')) = Some t \<longrightarrow>
      dom (articles (snd (scraper_run e Map.empty))) = {''https://example.com/a''})"
proof (intro conjI impI)
  assume "exists_error e idx (normalize_link link0) = None \<and> articles s (normalize_link link0) = Some old"
  then show "process_link e n idx link0 s =
        (None, s\<lparr>skipped_cnt := 1, trace := trace s @ [LogAlreadySaved (normalize_link link0)]\<rparr>)"
    by (simp add: process_link_def Let_def skip_def emit_def)
next
  let ?s0 = "\<lparr>articles = Map.empty, skipped_cnt = 0, trace = []\<rparr>"
  let ?links = "[''https://example.com/a/'', ''https://example.com/a'']"
  assume "webdriver_builder e = None \<and> load_links e = Inr ?links"
  then have "snd (scraper_run e Map.empty) =
      emit [Quit] (snd (run_loop e (length ?links) 1 ?links ?s0))"
    using scraper_run_loaded [of e ?links Map.empty] by simp
  moreover have "dom (articles (snd (run_loop e (length ?links) 1 ?links ?s0))) \<subseteq> {''https://example.com/a''}"
    using run_dup_dom [of ?s0 e "length ?links" 1] by simp
  ultimately show "dom (articles (snd (scraper_run e Map.empty))) \<subseteq> {''https://example.com/a''}"
    by (simp add: emit_articles)
next
  let ?u = "''https://example.com/a''"
  let ?s0 = "\<lparr>articles = Map.empty, skipped_cnt = 0, trace = []\<rparr>"
  let ?links = "[''https://example.com/a/'', ?u]"
  assume h: "webdriver_builder e = None \<and>
    load_links e = Inr [''https://example.com/a/'', ?u] \<and>
    urlparse e ?u = Inr (scheme, netloc) \<and>
    (scheme = ''http'' \<or> scheme = ''https'') \<and> netloc \<noteq> [] \<and>
    requests_get e 1 ?u = Inr status \<and> status \<notin> bad_statuses \<and>
    page_source e 1 ?u = Inr doc \<and>
    parse_published (strptime e) (c_published_at (build_article e doc ?u)) = Some t"
  then have run: "snd (scraper_run e Map.empty) =
      emit [Quit] (snd (run_loop e (length ?links) 1 ?links ?s0))"
    using scraper_run_loaded [of e ?links Map.empty] by simp
  have sv: "\<exists>obj. save_article (strptime e) (uuid4 e) (build_article e doc ?u) Map.empty =
              Inr ([?u \<mapsto> obj], obj, True)"
    using h by (simp add: save_article_def update_or_create_def article_url_build
        d_published_at_defaults Let_def)
  then obtain obj where sv': "save_article (strptime e) (uuid4 e) (build_article e doc ?u) Map.empty =
              Inr ([?u \<mapsto> obj], obj, True)" by blast
  have sc: "articles (snd (scrape e n (Suc 0) ?u s')) = [?u \<mapsto> obj]" if "articles s' = Map.empty" for s' n
    using h that sv' by (simp add: scrape_def Let_def emit_def)
  have pr: "probe e n (Suc 0) ?u s' = scrape e n (Suc 0) ?u (emit [Probe ?u] s')" for s' n
    using h by (auto simp: probe_def)
  obtain r1 s1 where p1: "process_link e (length ?links) 1 ''https://example.com/a/'' ?s0 = (r1, s1)"
    by (cases "process_link e (length ?links) 1 ''https://example.com/a/'' ?s0")
  have "articles (snd (process_link e n 1 ''https://example.com/a/'' ?s0)) = [?u \<mapsto> obj]" for n
    by (simp add: process_link_def Let_def normalize_link_site pr sc emit_articles
        split: option.splits)
  with p1 have a1: "articles s1 = [?u \<mapsto> obj]" by (metis snd_conv)
  have "fst (process_link e n 1 ''https://example.com/a/'' ?s0) = None" for n
    by (simp add: process_link_def Let_def normalize_link_site pr scrape_no_exception
        split: option.splits)
  with p1 have r1: "r1 = None" by (metis fst_conv)
  have d2: "dom (articles s1) \<subseteq> dom (articles (snd (process_link e n idx ?u s1))) \<and>
            dom (articles (snd (process_link e n idx ?u s1))) \<subseteq> {?u}" for n idx
    using process_link_dom [of ?u s1 e n idx] a1 by (simp add: normalize_link_site)
  have "run_loop e (length ?links) 1 ?links ?s0 =
          (case process_link e (length ?links) (Suc 1) ?u s1 of
             (Some err, s') \<Rightarrow> (Some err, s') | (None, s') \<Rightarrow> (None, s'))"
    unfolding run_loop.simps p1 r1 by simp
  then have "snd (run_loop e (length ?links) 1 ?links ?s0) =
          snd (process_link e (length ?links) (Suc 1) ?u s1)"
    by (simp split: prod.splits option.splits)
  with d2 [of "length ?links" "Suc 1"] a1
  have "dom (articles (snd (run_loop e (length ?links) 1 ?links ?s0))) = {?u}"
    by auto
  with run show "dom (articles (snd (scraper_run e Map.empty))) = {?u}"
    by (simp add: emit_articles)
qed
lemma dup_env_fields:
  "webdriver_builder dup_env = None"
  "load_links dup_env = Inr [''https://example.com/a/'', ''https://example.com/a'']"
  "exists_error dup_env idx link = None"
  "urlparse dup_env = sample_urlparse"
  "requests_get dup_env idx link = Inr 200"
  "page_source dup_env idx link = Inr dated_page"
  "dateparser_available dup_env"
  "dateparser_parse dup_env = sample_parse"
  "strptime dup_env = sample_strptime"
  by (simp_all add: dup_env_def sample_env_def)

lemma dup_not_found_env_fields:
  "webdriver_builder dup_not_found_env = None"
  "load_links dup_not_found_env = Inr [''https://example.com/a/'', ''https://example.com/a'']"
  "exists_error dup_not_found_env idx link = None"
  "urlparse dup_not_found_env = sample_urlparse"
  "requests_get dup_not_found_env idx link = Inr 404"
  by (simp_all add: dup_not_found_env_def dup_env_def sample_env_def)

theorem already_saved_is_skipped_witness:
  "scraper_run dup_env Map.empty =
     (None, \<lparr>articles = [''https://example.com/a'' \<mapsto> new_row], skipped_cnt = 1,
              trace = [Probe ''https://example.com/a'', LogScraping 1 2 ''https://example.com/a'' 0,
                       Render ''https://example.com/a'', Persist ''https://example.com/a'',
                       LogSaved ''A'' ''https://example.com/a'',
                       LogAlreadySaved ''https://example.com/a'', Quit]\<rparr>) \<and>
   dom (articles (snd (scraper_run dup_env Map.empty))) = {''https://example.com/a''}"
proof -
  let ?u = "''https://example.com/a''"
  have p: "parse_published (strptime dup_env) (c_published_at (build_article dup_env dated_page ?u)) =
             Some sample_time"
    by (simp add: build_article_dated_page dup_env_fields parse_published_def sample_strptime_def)
  have d: "dom (articles (snd (scraper_run dup_env Map.empty))) = {?u}"
    using already_saved_is_skipped
      [of dup_env 2 ?u "\<lparr>articles = [?u \<mapsto> new_row], skipped_cnt = 0, trace = []\<rparr>" new_row 2
          "''https''" "''example.com''" 200 dated_page sample_time] p
    by (simp add: dup_env_fields sample_urlparse_site bad_statuses_def)
  have "scraper_run dup_env Map.empty =
     (None, \<lparr>articles = [?u \<mapsto> new_row], skipped_cnt = 1,
              trace = [Probe ?u, LogScraping 1 2 ?u 0, Render ?u, Persist ?u, LogSaved ''A'' ?u,
                       LogAlreadySaved ?u, Quit]\<rparr>)"
    by (simp add: scraper_run_def process_link_def probe_def scrape_def save_article_def
        update_or_create_def dup_env_fields normalize_link_site sample_urlparse_site
        bad_statuses_def defaults_dated_page article_url_build emit_def skip_def Let_def
        new_row_def)
  with d show ?thesis by simp
qed

text \<open>
  The claim as the specification states it fails in both halves. A URL that has a
  row in the store is probed, rendered and saved again when the query that asks the
  store raises; and the list of the scenario leaves no row at all when the probes
  answer 404.
\<close>

theorem already_saved_not_always_skipped:
  "scraper_run db_error_env [''https://example.com/a'' \<mapsto> old_row] =
     (None, \<lparr>articles = [''https://example.com/a'' \<mapsto> new_row], skipped_cnt = 0,
              trace = [LogDbCheckFailed ''https://example.com/a'', Probe ''https://example.com/a'',
                       LogScraping 1 1 ''https://example.com/a'' 0, Render ''https://example.com/a'',
                       Persist ''https://example.com/a'', LogUpdated ''A'' ''https://example.com/a'',
                       Quit]\<rparr>) \<and>
   scraper_run dup_not_found_env Map.empty =
     (None, \<lparr>articles = Map.empty, skipped_cnt = 1,
              trace = [Probe ''https://example.com/a'', LogBadStatus 404 ''https://example.com/a'',
                       Probe ''https://example.com/a'', LogBadStatus 404 ''https://example.com/a'',
                       Quit]\<rparr>)"
  by (simp add: scraper_run_def process_link_def probe_def scrape_def save_article_def
      update_or_create_def db_error_env_fields dup_not_found_env_fields normalize_link_site
      sample_urlparse_site bad_statuses_def defaults_dated_page article_url_build emit_def
      skip_def Let_def old_row_def new_row_def)

section \<open>Which failures end the run\<close>











end
